theory Spec2Isabelle
  imports Complex_Main "HOL-Library.Word"
begin

section \<open>JavaScript values\<close>

text \<open>
  A JavaScript string is a sequence of UTF-16 code units. \<open>ascii\<close> embeds the ASCII
  literals of the source (\<^verbatim>\<open>'message'\<close>, \<^verbatim>\<open>'id'\<close>, ...).
\<close>

type_synonym js_string = "16 word list"

definition ascii :: "string \<Rightarrow> js_string" where
  "ascii s = map (\<lambda>c. of_char c) s"

text \<open>
  \<^verbatim>\<open>String.prototype.trim\<close> removes the ECMAScript WhiteSpace and LineTerminator code
  units from both ends: TAB, LF, VT, FF, CR, SP, NBSP, U+1680, U+2000 to U+200A, LS, PS,
  U+202F, U+205F, U+3000 and the BOM.
\<close>

definition is_white_space :: "16 word \<Rightarrow> bool" where
  "is_white_space c \<longleftrightarrow> c \<in> set [0x9, 0xA, 0xB, 0xC, 0xD, 0x20, 0xA0, 0x1680,
      0x2000, 0x2001, 0x2002, 0x2003, 0x2004, 0x2005, 0x2006, 0x2007, 0x2008, 0x2009, 0x200A,
      0x2028, 0x2029, 0x202F, 0x205F, 0x3000, 0xFEFF]"

definition trim :: "js_string \<Rightarrow> js_string" where
  "trim s = rev (dropWhile is_white_space (rev (dropWhile is_white_space s)))"

text \<open>The exceptions the page's own code can raise.\<close>

datatype js_error = SyntaxError | TypeError

text \<open>
  What \<^verbatim>\<open>JSON.parse\<close> can return. A number is the exact value of the double it
  denotes (no NaN and no infinity comes out of \<^verbatim>\<open>JSON.parse\<close>); an object is the
  list of its own properties. \<open>None\<close> of type \<open>js_value\<close> is \<^verbatim>\<open>undefined\<close>.
\<close>

datatype json =
    JNull
  | JBool bool
  | JNum rat
  | JStr js_string
  | JArr "json list"
  | JObj "(js_string \<times> json) list"

type_synonym js_value = "json option"

text \<open>
  Property read \<^verbatim>\<open>v.k\<close>, for the property names the page reads (\<^verbatim>\<open>type\<close>,
  \<^verbatim>\<open>data\<close>, \<^verbatim>\<open>channelId\<close>, \<^verbatim>\<open>id\<close>: none of them is inherited from a
  prototype, so a primitive or an array has none of them). Reading a property of
  \<^verbatim>\<open>undefined\<close> or \<^verbatim>\<open>null\<close> throws a TypeError.
\<close>

fun get_prop :: "js_value \<Rightarrow> js_string \<Rightarrow> js_error + js_value" where
  "get_prop None k = Inl TypeError"
| "get_prop (Some JNull) k = Inl TypeError"
| "get_prop (Some (JObj kvs)) k = Inr (map_of kvs k)"
| "get_prop (Some (JBool b)) k = Inr None"
| "get_prop (Some (JNum n)) k = Inr None"
| "get_prop (Some (JStr s)) k = Inr None"
| "get_prop (Some (JArr xs)) k = Inr None"

text \<open>
  Strict equality \<^verbatim>\<open>===\<close>. Primitives are compared by value. Objects and arrays are
  compared by reference, and every frame is parsed into fresh objects, so an object
  that has just been parsed is equal to nothing that was there before.
\<close>

fun strict_eq :: "js_value \<Rightarrow> js_value \<Rightarrow> bool" where
  "strict_eq None None = True"
| "strict_eq (Some JNull) (Some JNull) = True"
| "strict_eq (Some (JBool a)) (Some (JBool b)) = (a = b)"
| "strict_eq (Some (JNum a)) (Some (JNum b)) = (a = b)"
| "strict_eq (Some (JStr a)) (Some (JStr b)) = (a = b)"
| "strict_eq _ _ = False"

section \<open>The first page version\<close>

subsection \<open>State of the component\<close>

text \<open>
  The argument object of \<^verbatim>\<open>createMessageMutation.mutate\<close>. The first page version
  passes \<^verbatim>\<open>{channelId, content}\<close> (no nonce), the second
  \<^verbatim>\<open>{channelId, content, nonce}\<close>.
\<close>

record create_args =
  arg_channelId :: js_string
  arg_content :: js_string
  arg_nonce :: "js_string option"

text \<open>
  The state of \<^verbatim>\<open>ChatPage\<close> (first version) and of the browser objects it drives.
  WebSockets are numbered in the order of their creation.

  \<^item> \<open>channel_id\<close>: \<^verbatim>\<open>channel.id\<close> of the props;
  \<^item> \<open>wsInstance\<close>: the ref \<^verbatim>\<open>wsInstance.current\<close>;
  \<^item> \<open>waitingToReconnect\<close>, \<open>wsClient\<close>, \<open>message\<close>, \<open>messages\<close>: the
    \<^verbatim>\<open>useState\<close> cells of these names;
  \<^item> \<open>textInput\<close>: the \<^verbatim>\<open>value\<close> of the DOM element with id \<^verbatim>\<open>textInput\<close>;
  \<^item> \<open>timeouts\<close>: the pending \<^verbatim>\<open>setTimeout\<close> callbacks, oldest first, each with
    its delay in milliseconds and the value it passes to \<^verbatim>\<open>setWaitingToReconnect\<close>;
  \<^item> \<open>sockets\<close>: every WebSocket created so far, with the value of
    \<^verbatim>\<open>waitingToReconnect\<close> that its \<^verbatim>\<open>onclose\<close> closure captured;
  \<^item> \<open>connections\<close>: the sockets that are CONNECTING or OPEN;
  \<^item> \<open>closing\<close>: the sockets on which \<^verbatim>\<open>close()\<close> was called and whose close
    event has not been dispatched yet;
  \<^item> \<open>cleanup\<close>: the cleanup function returned by the last run of the WebSocket effect
    (the \<^verbatim>\<open>client\<close> it closes over), if it returned one;
  \<^item> \<open>mounted\<close>: whether the component is mounted;
  \<^item> \<open>onmessage_messages\<close>: the array \<^verbatim>\<open>messages\<close> captured by the
    \<^verbatim>\<open>onmessage\<close> handler that is installed, if one is;
  \<^item> \<open>mutations\<close>: the \<^verbatim>\<open>createMessage\<close> calls issued so far.
\<close>

record chat_page =
  channel_id :: js_string
  wsInstance :: "nat option"
  waitingToReconnect :: bool
  wsClient :: "nat option"
  message :: js_string
  messages :: "json list"
  textInput :: js_string
  timeouts :: "(nat \<times> bool) list"
  sockets :: "(nat \<times> bool) list"
  connections :: "nat list"
  closing :: "nat list"
  cleanup :: "nat option"
  mounted :: bool
  onmessage_messages :: "json list option"
  mutations :: "create_args list"

text \<open>The component before its first effects run: the initial values of the hooks.\<close>

definition initial_page :: "js_string \<Rightarrow> chat_page" where
  "initial_page c =
     \<lparr>channel_id = c, wsInstance = None, waitingToReconnect = False, wsClient = None,
      message = [], messages = [], textInput = [], timeouts = [], sockets = [],
      connections = [], closing = [], cleanup = None, mounted = True,
      onmessage_messages = None, mutations = []\<rparr>"

subsection \<open>The WebSocket effect and its close handler\<close>

text \<open>
  A state setter of an unmounted component does nothing.
\<close>

definition setWaitingToReconnect :: "bool \<Rightarrow> chat_page \<Rightarrow> chat_page" where
  "setWaitingToReconnect v s = (if mounted s then s\<lparr>waitingToReconnect := v\<rparr> else s)"

definition setClient :: "nat option \<Rightarrow> chat_page \<Rightarrow> chat_page" where
  "setClient v s = (if mounted s then s\<lparr>wsClient := v\<rparr> else s)"

text \<open>
  The body of the effect with dependency \<^verbatim>\<open>[waitingToReconnect]\<close>: it returns early
  while waiting; it creates a socket only when \<^verbatim>\<open>wsInstance.current\<close> is null, and
  only then returns a cleanup function. A new socket has no \<^verbatim>\<open>onmessage\<close> handler
  yet. The priming \<^verbatim>\<open>fetch\<close> and the scrolling change nothing of this state.
\<close>

definition socket_effect :: "chat_page \<Rightarrow> chat_page" where
  "socket_effect s =
     (if waitingToReconnect s then s\<lparr>cleanup := None\<rparr>
      else if wsInstance s = None then
        (let client = length (sockets s) in
         setClient (Some client)
           (s\<lparr>wsInstance := Some client,
              sockets := sockets s @ [(client, waitingToReconnect s)],
              connections := connections s @ [client],
              cleanup := Some client,
              onmessage_messages := None\<rparr>))
      else s\<lparr>cleanup := None\<rparr>)"

text \<open>
  The cleanup function: it nulls the ref, clears \<^verbatim>\<open>wsClient\<close> and closes its own
  \<^verbatim>\<open>client\<close>. \<^verbatim>\<open>close()\<close> starts the closing handshake of a socket that is
  CONNECTING or OPEN and does nothing on any other.
\<close>

definition socket_cleanup :: "nat \<Rightarrow> chat_page \<Rightarrow> chat_page" where
  "socket_cleanup client s =
     setClient None
       (s\<lparr>wsInstance := None,
          connections := removeAll client (connections s),
          closing := (if client \<in> set (connections s) then closing s @ [client]
                      else closing s)\<rparr>)"

text \<open>
  \<^verbatim>\<open>client.onclose\<close>. \<open>captured\<close> is the value of \<^verbatim>\<open>waitingToReconnect\<close> in the
  render whose effect created the socket. It returns when the ref is null (closed by
  the app) and when it captured \<^verbatim>\<open>true\<close>; otherwise it sets
  \<^verbatim>\<open>waitingToReconnect\<close>, empties the text input element and sets the timeout. On an
  unmounted page the setter does nothing and the element is gone, so the assignment to
  its \<^verbatim>\<open>value\<close> throws before the timeout is set.
\<close>

definition onclose :: "bool \<Rightarrow> chat_page \<Rightarrow> chat_page" where
  "onclose captured s =
     (if wsInstance s = None then s
      else if captured then s
      else if mounted s then
        s\<lparr>waitingToReconnect := True, textInput := [],
          timeouts := timeouts s @ [(5000, False)]\<rparr>
      else s)"

text \<open>
  The spec's connection states, read off the fields of the page: it waits to reconnect
  while \<^verbatim>\<open>waitingToReconnect\<close> is set, it is disconnected when it holds no socket, and
  it holds a connecting or open socket otherwise (\<^verbatim>\<open>onopen\<close> only logs, so the page
  does not tell the two apart).
\<close>

datatype ConnectionState = Disconnected | ConnectingOrOpen | Reconnecting

definition connection_state :: "chat_page \<Rightarrow> ConnectionState" where
  "connection_state s =
     (if waitingToReconnect s then Reconnecting
      else if wsInstance s = None then Disconnected
      else ConnectingOrOpen)"

subsection \<open>The life of the component\<close>

text \<open>
  The text input is a controlled input (\<^verbatim>\<open>value={message}\<close>): every render of the
  mounted component writes the state \<^verbatim>\<open>message\<close> to the element.
\<close>

definition render_input :: "chat_page \<Rightarrow> chat_page" where
  "render_input s = (if mounted s then s\<lparr>textInput := message s\<rparr> else s)"

text \<open>
  React renders again after a change of state, and runs an effect after the first render
  and after every render in which one of its dependencies has changed, the cleanup
  function of its previous run first. The steps below are those of one mounted
  component; each runs, with the change of \<^verbatim>\<open>waitingToReconnect\<close> that triggers them,
  the render and the WebSocket effect. (The render that follows \<^verbatim>\<open>setClient\<close> writes
  the same \<^verbatim>\<open>message\<close> to the input again. The second run of every effect that Strict
  Mode adds in development is not a step of this life.)

  \<^item> \<open>SocketClosed c\<close>: the close event of socket \<open>c\<close> is dispatched, because the server
    or the network closed it or because the handshake started by \<^verbatim>\<open>close()\<close> is over;
  \<^item> \<open>TimeoutFires\<close>: the oldest pending timeout fires;
  \<^item> \<open>Unmount\<close>: the component unmounts, and its last cleanup function runs;
  \<^item> \<open>Typed t\<close>: the user edits the input, which then holds \<open>t\<close>, and
    \<^verbatim>\<open>onChange\<close> calls \<^verbatim>\<open>setMessage\<close> with it. The input is disabled while
    \<^verbatim>\<open>waitingToReconnect\<close> is set.
\<close>

datatype lifecycle = SocketClosed nat | TimeoutFires | Unmount | Typed js_string

definition rerun_socket_effect :: "chat_page \<Rightarrow> chat_page" where
  "rerun_socket_effect s =
     socket_effect (case cleanup s of None \<Rightarrow> s | Some c \<Rightarrow> socket_cleanup c s)"

definition commit :: "chat_page \<Rightarrow> chat_page \<Rightarrow> chat_page" where
  "commit old new =
     (if waitingToReconnect new = waitingToReconnect old then new
      else rerun_socket_effect (render_input new))"

definition mount :: "js_string \<Rightarrow> chat_page" where
  "mount c = socket_effect (initial_page c)"

fun lifecycle_step :: "chat_page \<Rightarrow> lifecycle \<Rightarrow> chat_page" where
  "lifecycle_step s (SocketClosed c) =
     (if c \<in> set (connections s) \<or> c \<in> set (closing s) then
        (let s1 = s\<lparr>connections := removeAll c (connections s),
                    closing := removeAll c (closing s)\<rparr>
         in case map_of (sockets s) c of
              None \<Rightarrow> s1
            | Some captured \<Rightarrow> commit s1 (onclose captured s1))
      else s)"
| "lifecycle_step s TimeoutFires =
     (case timeouts s of
        [] \<Rightarrow> s
      | (delay, v) # rest \<Rightarrow>
          (let s1 = s\<lparr>timeouts := rest\<rparr> in commit s1 (setWaitingToReconnect v s1)))"
| "lifecycle_step s Unmount =
     (if mounted s then
        (case cleanup s of None \<Rightarrow> s | Some c \<Rightarrow> socket_cleanup c s)
          \<lparr>mounted := False, cleanup := None\<rparr>
      else s)"
| "lifecycle_step s (Typed t) =
     (if mounted s \<and> \<not> waitingToReconnect s then s\<lparr>message := t, textInput := t\<rparr>
      else s)"

definition run_lifecycle :: "js_string \<Rightarrow> lifecycle list \<Rightarrow> chat_page" where
  "run_lifecycle c es = foldl lifecycle_step (mount c) es"

text \<open>The underlying connections that exist: open, connecting or still closing.\<close>

definition underlying :: "chat_page \<Rightarrow> nat list" where
  "underlying s = connections s @ closing s"

subsection \<open>Sending\<close>

text \<open>
  \<^verbatim>\<open>sendMessage\<close> of the first version, the submit handler of the form
  (\<^verbatim>\<open>e.preventDefault()\<close> only stops the browser's own submission).
\<close>

definition sendMessage :: "chat_page \<Rightarrow> chat_page" where
  "sendMessage s =
     (if trim (message s) = [] then s
      else s\<lparr>mutations := mutations s @
                 [\<lparr>arg_channelId = channel_id s, arg_content = message s, arg_nonce = None\<rparr>],
             message := []\<rparr>)"

subsection \<open>The message handler\<close>

text \<open>
  \<^verbatim>\<open>event.data\<close> is known by what \<^verbatim>\<open>JSON.parse\<close> makes of it: a SyntaxError or
  a value.
\<close>

datatype event_data = Unparseable | Parsed json

text \<open>
  \<^verbatim>\<open>messages.some(msg => msg.id === v)\<close>: it stops at the first match, and reading
  \<^verbatim>\<open>id\<close> of a \<^verbatim>\<open>null\<close> entry throws.
\<close>

fun some_id :: "json list \<Rightarrow> js_value \<Rightarrow> js_error + bool" where
  "some_id [] v = Inr False"
| "some_id (m # ms) v =
     (case get_prop (Some m) (ascii ''id'') of
        Inl e \<Rightarrow> Inl e
      | Inr i \<Rightarrow> if strict_eq i v then Inr True else some_id ms v)"

text \<open>
  The \<^verbatim>\<open>onmessage\<close> handler. \<open>captured\<close> is the array \<^verbatim>\<open>messages\<close> of the render
  whose effect installed the handler. The result is the exception the handler throws,
  or the argument of \<^verbatim>\<open>prevMessages.concat\<close> when it calls \<^verbatim>\<open>setMessages\<close>
  (\<open>None\<close> when it does not).
\<close>

definition onmessage :: "js_string \<Rightarrow> json list \<Rightarrow> event_data \<Rightarrow> js_error + json option" where
  "onmessage channel captured ev =
     (case ev of
        Unparseable \<Rightarrow> Inl SyntaxError
      | Parsed data \<Rightarrow>
          (case get_prop (Some data) (ascii ''type'') of
             Inl e \<Rightarrow> Inl e
           | Inr t \<Rightarrow>
               if strict_eq t (Some (JStr (ascii ''message''))) then
                 (case get_prop (Some data) (ascii ''data'') of
                    Inl e \<Rightarrow> Inl e
                  | Inr d \<Rightarrow>
                      (case get_prop d (ascii ''channelId'') of
                         Inl e \<Rightarrow> Inl e
                       | Inr c \<Rightarrow>
                           if strict_eq c (Some (JStr channel)) then
                             (case get_prop d (ascii ''id'') of
                                Inl e \<Rightarrow> Inl e
                              | Inr i \<Rightarrow>
                                  (case some_id captured i of
                                     Inl e \<Rightarrow> Inl e
                                   | Inr True \<Rightarrow> Inr None
                                   | Inr False \<Rightarrow> Inr d))
                           else Inr None))
               else Inr None))"

text \<open>
  The effect with dependencies \<^verbatim>\<open>[wsClient, messages]\<close>: it installs a handler that
  closes over the current \<^verbatim>\<open>messages\<close>.
\<close>

definition message_effect :: "chat_page \<Rightarrow> chat_page" where
  "message_effect s =
     (if wsClient s = None then s else s\<lparr>onmessage_messages := Some (messages s)\<rparr>)"

text \<open>
  A frame arrives: the installed handler runs. An exception it throws is uncaught and
  leaves the state as it was; otherwise the updater
  \<^verbatim>\<open>prevMessages => prevMessages.concat(data.data)\<close> is applied to the current state
  (\<^verbatim>\<open>data.data\<close> has a \<^verbatim>\<open>channelId\<close> then, so it is an object and not an array,
  and \<^verbatim>\<open>concat\<close> adds it as one element).
\<close>

definition deliver :: "chat_page \<Rightarrow> event_data \<Rightarrow> chat_page" where
  "deliver s ev =
     (case onmessage_messages s of
        None \<Rightarrow> s
      | Some captured \<Rightarrow>
          (case onmessage (channel_id s) captured ev of
             Inl e \<Rightarrow> s
           | Inr None \<Rightarrow> s
           | Inr (Some d) \<Rightarrow> if mounted s then s\<lparr>messages := messages s @ [d]\<rparr> else s))"

text \<open>How often the log holds an entry whose \<^verbatim>\<open>id\<close> is the string \<open>i\<close>.\<close>

definition count_id :: "js_string \<Rightarrow> json list \<Rightarrow> nat" where
  "count_id i ms =
     length (filter (\<lambda>m. get_prop (Some m) (ascii ''id'') = Inr (Some (JStr i))) ms)"

section \<open>The second page version\<close>

text \<open>
  \<^verbatim>\<open>MessageType\<close>, with the fields of the object that \<^verbatim>\<open>sendMessage\<close> builds. A
  name or image that is \<^verbatim>\<open>null\<close> or \<^verbatim>\<open>undefined\<close> is \<open>None\<close>.
\<close>

record author =
  author_id :: js_string
  author_name :: "js_string option"
  author_image :: "js_string option"

record MessageType =
  createdTimestamp :: int
  content :: js_string
  msg_id :: js_string
  msg_channelId :: js_string
  authorId :: js_string
  msg_author :: author
  embeds :: "json list"

text \<open>
  The \<^verbatim>\<open>data\<close> of \<^verbatim>\<open>useSession\<close>: \<^verbatim>\<open>null\<close> or \<^verbatim>\<open>undefined\<close> (\<open>None\<close>), or a
  session, whose \<^verbatim>\<open>user\<close> may be missing.
\<close>

record session_user =
  user_id :: js_string
  user_name :: "js_string option"
  user_image :: "js_string option"

record session =
  user :: "session_user option"

text \<open>The status of the \<^verbatim>\<open>createMessage\<close> mutation object of the query library.\<close>

datatype mutation_status = Idle | Loading | Failed | Succeeded

text \<open>
  The state of \<^verbatim>\<open>ChatPage\<close> (second version): the props' \<^verbatim>\<open>channel.id\<close>, the
  session, the two refs \<^verbatim>\<open>pendingMessage\<close> and \<^verbatim>\<open>pendingNonce\<close>, the array
  \<^verbatim>\<open>messages\<close> that \<^verbatim>\<open>useMessages\<close> returns, the \<^verbatim>\<open>createMessage\<close> calls issued
  so far and the status of the mutation object.
\<close>

record chat_page2 =
  channel_id2 :: js_string
  session_data :: "session option"
  pendingMessage :: "MessageType option"
  pendingNonce :: "js_string option"
  messages2 :: "MessageType list"
  mutations2 :: "create_args list"
  mutation :: mutation_status

text \<open>
  \<^verbatim>\<open>sendMessage\<close> of the second version. \<open>now\<close> is \<^verbatim>\<open>new Date()\<close> and \<open>uuid\<close>
  is \<^verbatim>\<open>window.crypto.randomUUID()\<close>. It returns \<^verbatim>\<open>undefined\<close> for blank input and
  \<^verbatim>\<open>{sent: true}\<close> otherwise. The object literal is evaluated before the first
  assignment, so the TypeError of a missing session or user leaves the state as it was.
\<close>

datatype send_result = ReturnsUndefined | Sent bool

definition sendMessage2 ::
  "int \<Rightarrow> js_string \<Rightarrow> js_string \<Rightarrow> chat_page2 \<Rightarrow> js_error + (send_result \<times> chat_page2)" where
  "sendMessage2 now uuid msg s =
     (if trim msg = [] then Inr (ReturnsUndefined, s)
      else
        (case session_data s of
           None \<Rightarrow> Inl TypeError
         | Some sess \<Rightarrow>
             (case user sess of
                None \<Rightarrow> Inl TypeError
              | Some u \<Rightarrow>
                  Inr (Sent True,
                    s\<lparr>pendingMessage := Some
                         \<lparr>createdTimestamp = now,
                          content = trim msg,
                          msg_id = [],
                          msg_channelId = channel_id2 s,
                          authorId = user_id u,
                          msg_author = \<lparr>author_id = user_id u, author_name = user_name u,
                                        author_image = user_image u\<rparr>,
                          embeds = []\<rparr>,
                      pendingNonce := Some uuid,
                      mutations2 := mutations2 s @
                        [\<lparr>arg_channelId = channel_id2 s, arg_content = msg,
                          arg_nonce = Some uuid\<rparr>],
                      mutation := Loading\<rparr>))))"



text \<open>
  What the page renders of the log: one \<^verbatim>\<open>Message\<close> element for every entry of
  \<^verbatim>\<open>messages\<close>, then one with the \<^verbatim>\<open>pending\<close> flag for \<^verbatim>\<open>pendingMessage.current\<close>
  when it is not null. These two are all the props the page gives to \<^verbatim>\<open>Message\<close>.
\<close>

record message_props =
  props_pending :: bool
  props_message :: MessageType

definition render_messages :: "chat_page2 \<Rightarrow> message_props list" where
  "render_messages s =
     map (\<lambda>m. \<lparr>props_pending = False, props_message = m\<rparr>) (messages2 s) @
     (case pendingMessage s of
        None \<Rightarrow> []
      | Some p \<Rightarrow> [\<lparr>props_pending = True, props_message = p\<rparr>])"

text \<open>
  The \<open>k\<close>-th \<^verbatim>\<open>createMessage\<close> call (counted from 0) fails. The page passes no
  callback to \<^verbatim>\<open>useMutation\<close> or to \<^verbatim>\<open>mutate\<close>, so only the mutation object of the
  library can change; it follows the latest call of \<^verbatim>\<open>mutate\<close> only.
\<close>

definition createMessage_failed :: "nat \<Rightarrow> chat_page2 \<Rightarrow> chat_page2" where
  "createMessage_failed k s =
     (if Suc k = length (mutations2 s) then s\<lparr>mutation := Failed\<rparr> else s)"

section \<open>Server-side props\<close>

text \<open>
  A promise that has not been awaited is an object, and every object is truthy.
  \<^verbatim>\<open>await\<close> gives the value it resolves to.
\<close>

datatype 'a promise = Promise 'a

fun truthy_promise :: "'a promise \<Rightarrow> bool" where
  "truthy_promise (Promise x) = True"

fun await :: "'a promise \<Rightarrow> 'a" where
  "await (Promise x) = x"

record redirect =
  destination :: js_string
  permanent :: bool
  statusCode :: "nat option"

datatype 'p server_side_result = Redirect redirect | NotFound | Props 'p

text \<open>
  \<^verbatim>\<open>getServerSideProps\<close> of the first version. \<open>auth\<close> is what
  \<^verbatim>\<open>getServerAuthSession\<close> returns (a promise of the session or \<^verbatim>\<open>null\<close>), \<open>params\<close>
  the route parameters (\<open>None\<close> when absent), \<open>findUnique\<close> the database lookup (it
  may fail with an error of the database client) and \<open>roundtrip\<close> the
  \<^verbatim>\<open>JSON.parse(JSON.stringify(channel))\<close> of the result. The promise is not awaited.
\<close>

definition getServerSideProps ::
  "'s option promise \<Rightarrow> (js_string \<times> js_string) list option \<Rightarrow>
   (js_string option \<Rightarrow> 'e + 'c option) \<Rightarrow> ('c \<Rightarrow> 'p) \<Rightarrow> 'e + 'p server_side_result" where
  "getServerSideProps auth params findUnique roundtrip =
     (let session = auth;
          home = Inr (Redirect \<lparr>destination = ascii ''/'', permanent = False,
                                statusCode = Some 301\<rparr>)
      in if \<not> truthy_promise session then home
         else
           (case params of
              None \<Rightarrow> home
            | Some ps \<Rightarrow>
                (let channelId = map_of ps (ascii ''id'') in
                 case findUnique channelId of
                   Inl e \<Rightarrow> Inl e
                 | Inr None \<Rightarrow> Inr NotFound
                 | Inr (Some channel) \<Rightarrow> Inr (Props (roundtrip channel)))))"

text \<open>
  \<^verbatim>\<open>getServerSideProps\<close> of the second version: the promise is awaited, the channel
  is looked up by the route parameter \<^verbatim>\<open>channelId\<close>, and the props also carry
  \<^verbatim>\<open>serverId\<close> (the route parameter \<^verbatim>\<open>id\<close>). The constant
  \<^verbatim>\<open>messageLink: null\<close> of the props is left out.
\<close>

definition getServerSideProps2 ::
  "'s option promise \<Rightarrow> (js_string \<times> js_string) list option \<Rightarrow>
   (js_string option \<Rightarrow> 'e + 'c option) \<Rightarrow> ('c \<Rightarrow> 'p) \<Rightarrow>
   'e + ('p \<times> js_string option) server_side_result" where
  "getServerSideProps2 auth params findUnique roundtrip =
     (let session = await auth;
          home = Inr (Redirect \<lparr>destination = ascii ''/'', permanent = False,
                                statusCode = None\<rparr>)
      in if session = None then home
         else
           (case params of
              None \<Rightarrow> home
            | Some ps \<Rightarrow>
                (let channelId = map_of ps (ascii ''channelId'') in
                 case findUnique channelId of
                   Inl e \<Rightarrow> Inl e
                 | Inr None \<Rightarrow> Inr NotFound
                 | Inr (Some channel) \<Rightarrow>
                     Inr (Props (roundtrip channel, map_of ps (ascii ''id''))))))"

section \<open>Concrete inputs\<close>

text \<open>
  The frame \<^verbatim>\<open>{"type": "message", "data": {"id": "m1", "channelId": "general"}}\<close>, a
  frame of another type, and a message frame for the channel whose payload has no id, no
  author and no content.
\<close>

definition frame_m1 :: json where
  "frame_m1 =
     JObj [(ascii ''type'', JStr (ascii ''message'')),
           (ascii ''data'', JObj [(ascii ''id'', JStr (ascii ''m1'')),
                                  (ascii ''channelId'', JStr (ascii ''general''))])]"



text \<open>
  The first page of channel \<^verbatim>\<open>general\<close>, mounted, with its message handler installed.
\<close>

definition page_general :: chat_page where
  "page_general = message_effect (mount (ascii ''general''))"


text \<open>
  The second page of channel \<^verbatim>\<open>general\<close> with the log \<^verbatim>\<open>[m1, m2]\<close>, nothing
  pending and a signed-in user; and the broadcast \<^verbatim>\<open>m3\<close> of section 8.
\<close>

definition alice :: session_user where
  "alice = \<lparr>user_id = ascii ''u1'', user_name = Some (ascii ''alice''), user_image = None\<rparr>"

definition stored_message :: "js_string \<Rightarrow> int \<Rightarrow> js_string \<Rightarrow> MessageType" where
  "stored_message i t c =
     \<lparr>createdTimestamp = t, content = c, msg_id = i, msg_channelId = ascii ''general'',
      authorId = ascii ''u1'',
      msg_author = \<lparr>author_id = ascii ''u1'', author_name = Some (ascii ''alice''),
                    author_image = None\<rparr>,
      embeds = []\<rparr>"

definition page2_general :: chat_page2 where
  "page2_general =
     \<lparr>channel_id2 = ascii ''general'',
      session_data = Some \<lparr>user = Some alice\<rparr>,
      pendingMessage = None,
      pendingNonce = None,
      messages2 = [stored_message (ascii ''m1'') 1 (ascii ''hello''),
                   stored_message (ascii ''m2'') 2 (ascii ''world'')],
      mutations2 = [],
      mutation = Idle\<rparr>"

definition m3 :: MessageType where
  "m3 = stored_message (ascii ''m3'') 3 (ascii ''hi'')"


text \<open>
  The state after a call of \<^verbatim>\<open>sendMessage\<close> (second version): the one it returns
  with, or the one it was called in when it throws.
\<close>

definition after_sendMessage2 ::
  "int \<Rightarrow> js_string \<Rightarrow> js_string \<Rightarrow> chat_page2 \<Rightarrow> chat_page2" where
  "after_sendMessage2 now uuid msg s =
     (case sendMessage2 now uuid msg s of Inl e \<Rightarrow> s | Inr (r, s') \<Rightarrow> s')"

section \<open>An invariant of the first page\<close>

text \<open>
  What holds of the page after every step of its life. Every close handler captured
  \<^verbatim>\<open>waitingToReconnect = false\<close>, and the page has one of three shapes: mounted and
  active, with exactly one socket, the one its ref and its cleanup function name, and
  no timeout; mounted and waiting, with no socket and one timeout of 5000 ms; or
  unmounted, with no open socket and at most one that is still closing.
\<close>

definition closures_ok :: "(nat \<times> bool) list \<Rightarrow> bool" where
  "closures_ok xs \<longleftrightarrow> (\<forall>(c, w) \<in> set xs. \<not> w \<and> c < length xs)"

definition page_active :: "chat_page \<Rightarrow> nat \<Rightarrow> bool" where
  "page_active s c \<longleftrightarrow>
     mounted s \<and> \<not> waitingToReconnect s \<and> wsInstance s = Some c \<and> cleanup s = Some c \<and>
     connections s = [c] \<and> map_of (sockets s) c = Some False \<and> closing s = [] \<and>
     timeouts s = []"

definition page_waiting :: "chat_page \<Rightarrow> bool" where
  "page_waiting s \<longleftrightarrow>
     mounted s \<and> waitingToReconnect s \<and> wsInstance s = None \<and> cleanup s = None \<and>
     connections s = [] \<and> closing s = [] \<and> timeouts s = [(5000, False)]"

definition page_gone :: "chat_page \<Rightarrow> bool" where
  "page_gone s \<longleftrightarrow>
     \<not> mounted s \<and> wsInstance s = None \<and> cleanup s = None \<and> connections s = [] \<and>
     (closing s = [] \<and> length (timeouts s) \<le> 1 \<or>
      (\<exists>c. closing s = [c] \<and> map_of (sockets s) c = Some False) \<and>
      \<not> waitingToReconnect s \<and> timeouts s = [])"

definition page_invariant :: "chat_page \<Rightarrow> bool" where
  "page_invariant s \<longleftrightarrow>
     closures_ok (sockets s) \<and> ((\<exists>c. page_active s c) \<or> page_waiting s \<or> page_gone s)"

section \<open>Evaluation of the concrete inputs\<close>

lemmas page_defs = page_general_def mount_def initial_page_def socket_effect_def
  setClient_def message_effect_def

lemmas page2_defs = page2_general_def alice_def stored_message_def m3_def

lemma trim_empty: "trim [] = []"
  by (simp add: trim_def)

lemma trim_spaces: "trim (ascii ''   '') = []"
  by (simp add: trim_def ascii_def is_white_space_def)

lemma trim_hi: "trim (ascii ''hi'') = ascii ''hi''"
  by (simp add: trim_def ascii_def is_white_space_def)

section \<open>Blank input is not sent\<close>

text \<open>
  Claim C7. A call of \<^verbatim>\<open>sendMessage\<close> whose content is empty after trimming returns
  at once, in both page versions: the state is the one before the call, so no pending
  entry is created and no \<^verbatim>\<open>createMessage\<close> call is added to the calls issued.
\<close>

theorem blank_message_not_sent:
  "(trim (message s) = [] \<longrightarrow> sendMessage s = s) \<and>
   (trim msg = [] \<longrightarrow> sendMessage2 now uuid msg p = Inr (ReturnsUndefined, p))"
  by (simp add: sendMessage_def sendMessage2_def)

theorem blank_message_not_sent_witness:
  "sendMessage (page_general\<lparr>message := ascii ''   ''\<rparr>) =
     page_general\<lparr>message := ascii ''   ''\<rparr> \<and>
   sendMessage2 5 (ascii ''n1'') [] page2_general = Inr (ReturnsUndefined, page2_general)"
  using blank_message_not_sent
          [of "page_general\<lparr>message := ascii ''   ''\<rparr>" "[]" 5 "ascii ''n1''" page2_general]
        trim_spaces trim_empty
  by simp

text \<open>Input that is not blank is sent: the hypothesis of the claim is what stops it.\<close>

lemma message_hi_sent:
  "mutations (sendMessage (page_general\<lparr>message := ascii ''hi''\<rparr>)) =
     [\<lparr>arg_channelId = ascii ''general'', arg_content = ascii ''hi'', arg_nonce = None\<rparr>]"
  by (simp add: sendMessage_def trim_hi page_defs) (simp add: ascii_def)

section \<open>The message handler and duplicate deliveries\<close>

text \<open>
  What the handler does right. A message frame of another channel is never appended.
\<close>

lemma other_channel_ignored:
  assumes "get_prop (Some data) (ascii ''data'') = Inr d"
    and "get_prop d (ascii ''channelId'') = Inr c"
    and "\<not> strict_eq c (Some (JStr channel))"
  shows "onmessage channel captured (Parsed data) = Inr None"
proof -
  obtain t where t: "get_prop (Some data) (ascii ''type'') = Inr t"
    using assms(1) by (cases data) simp_all
  show ?thesis
    using assms t by (simp add: onmessage_def)
qed

text \<open>
  A frame is appended only if no entry of the captured array has its id; when it is
  appended, it is appended at the end.
\<close>

lemma some_id_False:
  "some_id ms (Some (JStr i)) = Inr False \<Longrightarrow> count_id i ms = 0"
proof (induction ms)
  case Nil
  then show ?case by (simp add: count_id_def)
next
  case (Cons m ms)
  then show ?case
    by (auto simp add: count_id_def split: sum.splits if_splits)
qed

lemma onmessage_appends:
  assumes "onmessage channel captured ev = Inr (Some d)"
  shows "\<exists>i. get_prop (Some d) (ascii ''id'') = Inr i \<and> some_id captured i = Inr False"
  using assms
  by (auto simp add: onmessage_def split: event_data.splits sum.splits if_splits bool.splits)

lemma deliver_cases:
  "messages (deliver s ev) = messages s \<or>
   (\<exists>d. onmessage (channel_id s) (the (onmessage_messages s)) ev = Inr (Some d) \<and>
        onmessage_messages s \<noteq> None \<and> messages (deliver s ev) = messages s @ [d])"
  by (auto simp add: deliver_def split: option.splits sum.splits)

text \<open>
  While the installed handler has captured the current array, no delivery makes an id
  occur twice.
\<close>

lemma deliver_in_sync:
  assumes sync: "onmessage_messages s = Some (messages s)"
    and once: "count_id i (messages s) \<le> 1"
  shows "count_id i (messages (deliver s ev)) \<le> 1"
proof -
  from deliver_cases [of s ev] show ?thesis
  proof
    assume "messages (deliver s ev) = messages s"
    with once show ?thesis by simp
  next
    assume "\<exists>d. onmessage (channel_id s) (the (onmessage_messages s)) ev = Inr (Some d) \<and>
        onmessage_messages s \<noteq> None \<and> messages (deliver s ev) = messages s @ [d]"
    then obtain d where
      d: "onmessage (channel_id s) (messages s) ev = Inr (Some d)"
      and app: "messages (deliver s ev) = messages s @ [d]"
      using sync by auto
    from onmessage_appends [OF d] obtain j where
      j: "get_prop (Some d) (ascii ''id'') = Inr j" and fresh: "some_id (messages s) j = Inr False"
      by blast
    show ?thesis
    proof (cases "j = Some (JStr i)")
      case True
      with fresh have "count_id i (messages s) = 0" by (simp add: some_id_False)
      with app show ?thesis by (simp add: count_id_def)
    next
      case False
      with j app once show ?thesis by (simp add: count_id_def)
    qed
  qed
qed

lemma deliveries_in_sync:
  assumes "wsClient s \<noteq> None"
    and "onmessage_messages s = Some (messages s)"
    and "count_id i (messages s) \<le> 1"
  shows "count_id i (messages (foldl (\<lambda>s ev. message_effect (deliver s ev)) s evs)) \<le> 1"
  using assms
proof (induction evs arbitrary: s)
  case Nil
  then show ?case by simp
next
  case (Cons ev evs)
  let ?s = "message_effect (deliver s ev)"
  have client: "wsClient (deliver s ev) = wsClient s"
    by (simp add: deliver_def split: option.splits sum.splits)
  have "wsClient ?s \<noteq> None"
    using Cons.prems(1) client by (simp add: message_effect_def)
  moreover have "onmessage_messages ?s = Some (messages ?s)"
    using Cons.prems(1) client by (auto simp add: message_effect_def)
  moreover have "count_id i (messages ?s) \<le> 1"
    using deliver_in_sync [OF Cons.prems(2,3), of ev] by (simp add: message_effect_def)
  ultimately show ?case
    using Cons.IH [of ?s] by simp
qed

text \<open>
  When the effect has run between two deliveries of the frame with id \<^verbatim>\<open>m1\<close>, the
  second delivery is ignored.
\<close>

lemma duplicate_delivery_after_effect:
  "count_id (ascii ''m1'')
     (messages (deliver (message_effect (deliver page_general (Parsed frame_m1)))
        (Parsed frame_m1))) = 1"
  by (simp add: page_defs frame_m1_def deliver_def onmessage_def count_id_def ascii_def)

text \<open>
  Claim C1. The handler tests the id against the array \<^verbatim>\<open>messages\<close> that it captured
  when the effect installed it, and appends to the current state
  (\<^verbatim>\<open>prevMessages\<close>). The effect runs after a render, so two message events can reach
  the same installed handler. Two such deliveries of the frame with id \<^verbatim>\<open>m1\<close> both pass
  the test: after the first the log holds the id once and the handler still holds the
  empty array it captured, and after the second the log holds the id \<^verbatim>\<open>m1\<close> twice, not
  once.
\<close>

theorem duplicate_delivery_appended_twice:
  "onmessage_messages (deliver page_general (Parsed frame_m1)) = Some [] \<and>
   count_id (ascii ''m1'') (messages (deliver page_general (Parsed frame_m1))) = 1 \<and>
   count_id (ascii ''m1'')
     (messages (deliver (deliver page_general (Parsed frame_m1)) (Parsed frame_m1))) = 2"
  by (simp add: page_defs frame_m1_def deliver_def onmessage_def count_id_def ascii_def)

section \<open>The session check of the first version\<close>

text \<open>
  Claim C10. In \<^verbatim>\<open>getServerSideProps\<close> of the first version the promise returned by
  \<^verbatim>\<open>getServerAuthSession\<close> is tested without being awaited. It is truthy whatever it
  resolves to, so the redirect is taken exactly when the route parameters are absent,
  and the result for an unauthenticated request (the promise resolves to \<^verbatim>\<open>null\<close>) is
  the result for an authenticated one.
\<close>

theorem unawaited_session_check:
  "truthy_promise (Promise sess) \<and>
   ((\<exists>r. getServerSideProps (Promise sess) params findUnique roundtrip = Inr (Redirect r))
      \<longleftrightarrow> params = None) \<and>
   getServerSideProps (Promise None) params findUnique roundtrip =
     getServerSideProps (Promise (Some x)) params findUnique roundtrip"
  by (auto simp add: getServerSideProps_def Let_def split: option.splits sum.splits)

theorem unawaited_session_check_witness:
  "getServerSideProps (Promise (None :: unit option)) (Some [(ascii ''id'', ascii ''c1'')])
      (\<lambda>i. (Inr i :: unit + js_string option)) id = Inr (Props (ascii ''c1'')) \<and>
   getServerSideProps (Promise (Some ())) None (\<lambda>i. (Inr i :: unit + js_string option)) id =
     Inr (Redirect \<lparr>destination = ascii ''/'', permanent = False, statusCode = Some 301\<rparr>)"
  using unawaited_session_check
    [of "None :: unit option" "Some [(ascii ''id'', ascii ''c1'')]"
        "\<lambda>i. (Inr i :: unit + js_string option)" id "()"]
    unawaited_session_check
    [of "Some ()" None "\<lambda>i. (Inr i :: unit + js_string option)" id "()"]
  by (simp add: getServerSideProps_def)

text \<open>The second version awaits the promise: there an unauthenticated request is redirected.\<close>

lemma awaited_session_check:
  "(\<exists>r. getServerSideProps2 (Promise sess) params findUnique roundtrip = Inr (Redirect r))
      \<longleftrightarrow> sess = None \<or> params = None"
  by (auto simp add: getServerSideProps2_def Let_def split: option.splits sum.splits)

section \<open>Frames that are malformed or of another type\<close>






section \<open>Optimistic sends of the second version\<close>




text \<open>
  Against claim C3 as it is stated. Two sends in a row, \<^verbatim>\<open>a\<close> with nonce \<^verbatim>\<open>n1\<close>
  and then \<^verbatim>\<open>b\<close> with nonce \<^verbatim>\<open>n2\<close>: the page shows one pending entry, that of
  \<^verbatim>\<open>b\<close>, and waits for \<^verbatim>\<open>n2\<close> only. The entry of \<^verbatim>\<open>a\<close> is not queued.
\<close>

theorem second_send_overwrites_pending:
  "map (content \<circ> props_message)
     (filter props_pending
        (render_messages
           (after_sendMessage2 6 (ascii ''n2'') (ascii ''b'')
              (after_sendMessage2 5 (ascii ''n1'') (ascii ''a'') page2_general)))) = [ascii ''b''] \<and>
   pendingNonce
     (after_sendMessage2 6 (ascii ''n2'') (ascii ''b'')
        (after_sendMessage2 5 (ascii ''n1'') (ascii ''a'') page2_general)) = Some (ascii ''n2'')"
  by (simp add: after_sendMessage2_def sendMessage2_def render_messages_def page2_defs
        trim_def is_white_space_def ascii_def)

text \<open>
  Claim C3, amended. The page has one slot for the pending message and one for its
  nonce. A send that is accepted fills both with its own entry, whatever they held: the
  page then waits for the nonce of this send, shows exactly one pending entry, and the
  result is the one the send has on a page with nothing pending.
\<close>

theorem send_keeps_latest_only:
  assumes "sendMessage2 now uuid msg p = Inr (Sent True, p1)"
  shows "pendingNonce p1 = Some uuid \<and>
         (\<exists>e. pendingMessage p1 = Some e \<and> content e = trim msg \<and>
              filter props_pending (render_messages p1) =
                [\<lparr>props_pending = True, props_message = e\<rparr>]) \<and>
         sendMessage2 now uuid msg (p\<lparr>pendingMessage := None, pendingNonce := None\<rparr>) =
           Inr (Sent True, p1)"
  using assms
  by (auto simp add: sendMessage2_def render_messages_def filter_map comp_def
      split: if_splits option.splits)

theorem send_keeps_latest_only_witness:
  "sendMessage2 6 (ascii ''n2'') (ascii ''b'')
      (after_sendMessage2 5 (ascii ''n1'') (ascii ''a'') page2_general) =
     Inr (Sent True,
       after_sendMessage2 6 (ascii ''n2'') (ascii ''b'')
         (after_sendMessage2 5 (ascii ''n1'') (ascii ''a'') page2_general)) \<and>
   pendingNonce (after_sendMessage2 5 (ascii ''n1'') (ascii ''a'') page2_general) =
     Some (ascii ''n1'') \<and>
   pendingNonce
     (after_sendMessage2 6 (ascii ''n2'') (ascii ''b'')
        (after_sendMessage2 5 (ascii ''n1'') (ascii ''a'') page2_general)) = Some (ascii ''n2'')"
proof -
  let ?p = "after_sendMessage2 5 (ascii ''n1'') (ascii ''a'') page2_general"
  let ?q = "after_sendMessage2 6 (ascii ''n2'') (ascii ''b'') ?p"
  have b: "trim (ascii ''b'') \<noteq> []"
    by (simp add: trim_def is_white_space_def ascii_def)
  have a: "trim (ascii ''a'') \<noteq> []"
    by (simp add: trim_def is_white_space_def ascii_def)
  have first: "pendingNonce ?p = Some (ascii ''n1'')"
    using a by (simp add: after_sendMessage2_def sendMessage2_def page2_general_def)
  have sess: "session_data ?p = Some \<lparr>user = Some alice\<rparr>"
    using a by (simp add: after_sendMessage2_def sendMessage2_def page2_general_def)
  have sent: "sendMessage2 6 (ascii ''n2'') (ascii ''b'') ?p = Inr (Sent True, ?q)"
    using b sess by (simp add: after_sendMessage2_def [of 6] sendMessage2_def)
  from send_keeps_latest_only [OF sent]
  have "pendingNonce ?q = Some (ascii ''n2'')" by blast
  with sent first show ?thesis by simp
qed

text \<open>
  Against claim C9 as it is stated. A send whose \<^verbatim>\<open>createMessage\<close> call fails: the
  page shows what it showed before the failure, the entry of the send still with the
  pending flag.
\<close>

theorem failed_send_still_pending:
  "render_messages
     (createMessage_failed 0 (after_sendMessage2 5 (ascii ''n1'') (ascii ''hi'') page2_general)) =
   render_messages (after_sendMessage2 5 (ascii ''n1'') (ascii ''hi'') page2_general) \<and>
   map props_pending
     (render_messages
        (createMessage_failed 0 (after_sendMessage2 5 (ascii ''n1'') (ascii ''hi'') page2_general))) =
   [False, False, True]"
  by (simp add: createMessage_failed_def render_messages_def after_sendMessage2_def
        sendMessage2_def trim_hi page2_defs)
     (simp add: ascii_def)

text \<open>
  Claim C9, amended. A failed \<^verbatim>\<open>createMessage\<close> call changes neither the pending
  message nor the pending nonce nor the log nor what the page renders: the entry stays,
  as pending as before, with no mark of failure and nothing to retry it with.
\<close>

theorem failure_changes_nothing_shown:
  "pendingMessage (createMessage_failed k p) = pendingMessage p \<and>
   pendingNonce (createMessage_failed k p) = pendingNonce p \<and>
   messages2 (createMessage_failed k p) = messages2 p \<and>
   mutations2 (createMessage_failed k p) = mutations2 p \<and>
   render_messages (createMessage_failed k p) = render_messages p"
  by (simp add: createMessage_failed_def render_messages_def)

theorem failure_changes_nothing_shown_witness:
  "pendingNonce
     (createMessage_failed 0 (after_sendMessage2 5 (ascii ''n1'') (ascii ''hi'') page2_general)) =
   Some (ascii ''n1'')"
  using failure_changes_nothing_shown
          [of 0 "after_sendMessage2 5 (ascii ''n1'') (ascii ''hi'') page2_general"]
  by (simp add: after_sendMessage2_def sendMessage2_def trim_hi page2_defs)
     (simp add: ascii_def)

section \<open>The life of the connection\<close>

lemma closures_fresh: "closures_ok xs \<Longrightarrow> map_of xs (length xs) = None"
  by (force simp add: closures_ok_def map_of_eq_None_iff)

lemma closures_extend: "closures_ok xs \<Longrightarrow> closures_ok (xs @ [(length xs, False)])"
  by (auto simp add: closures_ok_def less_Suc_eq)

lemma invariant_mount: "page_invariant (mount ch)"
  by (simp add: page_invariant_def page_active_def closures_ok_def mount_def initial_page_def
        socket_effect_def setClient_def)

text \<open>
  The steps of an active page: the close of its own socket makes it wait, and the render
  that follows writes the composed text to the input that the handler has emptied.
\<close>

lemma active_closed:
  assumes "page_active s c"
  shows "page_waiting (lifecycle_step s (SocketClosed c)) \<and>
         sockets (lifecycle_step s (SocketClosed c)) = sockets s \<and>
         message (lifecycle_step s (SocketClosed c)) = message s \<and>
         textInput (lifecycle_step s (SocketClosed c)) = message s"
  using assms
  by (simp add: page_active_def page_waiting_def commit_def onclose_def render_input_def
        setWaitingToReconnect_def rerun_socket_effect_def socket_effect_def
        socket_cleanup_def setClient_def)

lemma active_closed_other:
  assumes "page_active s c" and "c' \<noteq> c"
  shows "lifecycle_step s (SocketClosed c') = s"
  using assms by (simp add: page_active_def)

lemma active_timeout:
  assumes "page_active s c"
  shows "lifecycle_step s TimeoutFires = s"
  using assms by (simp add: page_active_def)

lemma active_unmount:
  assumes "page_active s c"
  shows "page_gone (lifecycle_step s Unmount) \<and>
         sockets (lifecycle_step s Unmount) = sockets s"
  using assms by (simp add: page_active_def page_gone_def socket_cleanup_def setClient_def)

lemma active_typed:
  assumes "page_active s c"
  shows "page_active (lifecycle_step s (Typed t)) c \<and>
         sockets (lifecycle_step s (Typed t)) = sockets s \<and>
         textInput (lifecycle_step s (Typed t)) = message (lifecycle_step s (Typed t))"
  using assms by (simp add: page_active_def)

text \<open>The steps of a waiting page: the timeout opens the next socket.\<close>

lemma waiting_closed:
  assumes "page_waiting s"
  shows "lifecycle_step s (SocketClosed c) = s"
  using assms by (simp add: page_waiting_def)

lemma waiting_typed:
  assumes "page_waiting s"
  shows "lifecycle_step s (Typed t) = s"
  using assms by (simp add: page_waiting_def)

lemma waiting_timeout:
  assumes "page_waiting s" and "closures_ok (sockets s)"
  shows "page_active (lifecycle_step s TimeoutFires) (length (sockets s)) \<and>
         sockets (lifecycle_step s TimeoutFires) = sockets s @ [(length (sockets s), False)] \<and>
         message (lifecycle_step s TimeoutFires) = message s \<and>
         textInput (lifecycle_step s TimeoutFires) = message s"
  using assms closures_fresh [of "sockets s"]
  by (simp add: page_waiting_def page_active_def commit_def setWaitingToReconnect_def
        render_input_def rerun_socket_effect_def socket_effect_def setClient_def Let_def
        map_add_def)

lemma waiting_unmount:
  assumes "page_waiting s"
  shows "page_gone (lifecycle_step s Unmount) \<and>
         sockets (lifecycle_step s Unmount) = sockets s"
  using assms by (simp add: page_waiting_def page_gone_def)

text \<open>An unmounted page stays unmounted and opens nothing.\<close>

lemma gone_step:
  assumes "page_gone s"
  shows "page_gone (lifecycle_step s e) \<and> sockets (lifecycle_step s e) = sockets s"
proof (cases e)
  case (SocketClosed c)
  with assms show ?thesis
    by (auto simp add: page_gone_def commit_def onclose_def)
next
  case TimeoutFires
  with assms show ?thesis
    by (auto simp add: page_gone_def commit_def setWaitingToReconnect_def split: list.splits)
next
  case Unmount
  with assms show ?thesis by (simp add: page_gone_def)
next
  case (Typed t)
  with assms show ?thesis by (simp add: page_gone_def)
qed

lemma invariant_step:
  assumes "page_invariant s"
  shows "page_invariant (lifecycle_step s e)"
proof -
  from assms have ok: "closures_ok (sockets s)"
    and shape: "(\<exists>c. page_active s c) \<or> page_waiting s \<or> page_gone s"
    by (simp_all add: page_invariant_def)
  from shape show ?thesis
  proof (elim disjE exE)
    fix c assume a: "page_active s c"
    show ?thesis
    proof (cases e)
      case (SocketClosed c')
      show ?thesis
      proof (cases "c' = c")
        case True
        with active_closed [OF a] ok SocketClosed show ?thesis
          by (simp add: page_invariant_def)
      next
        case False
        with active_closed_other [OF a] assms SocketClosed show ?thesis by simp
      qed
    next
      case TimeoutFires
      with active_timeout [OF a] assms show ?thesis by simp
    next
      case Unmount
      with active_unmount [OF a] ok show ?thesis by (simp add: page_invariant_def)
    next
      case (Typed t)
      with active_typed [OF a, of t] ok show ?thesis by (auto simp add: page_invariant_def)
    qed
  next
    assume w: "page_waiting s"
    show ?thesis
    proof (cases e)
      case (SocketClosed c)
      with waiting_closed [OF w] assms show ?thesis by simp
    next
      case TimeoutFires
      with waiting_timeout [OF w ok] closures_extend [OF ok] show ?thesis
        by (auto simp add: page_invariant_def)
    next
      case Unmount
      with waiting_unmount [OF w] ok show ?thesis by (simp add: page_invariant_def)
    next
      case (Typed t)
      with waiting_typed [OF w] assms show ?thesis by simp
    qed
  next
    assume "page_gone s"
    from gone_step [OF this, of e] ok show ?thesis by (simp add: page_invariant_def)
  qed
qed

lemma invariant_steps: "page_invariant s \<Longrightarrow> page_invariant (foldl lifecycle_step s es)"
  by (induction es arbitrary: s) (simp_all add: invariant_step)

lemma invariant_run: "page_invariant (run_lifecycle ch es)"
  by (simp add: run_lifecycle_def invariant_steps invariant_mount)

lemma invariant_underlying:
  assumes "page_invariant s"
  shows "length (underlying s) \<le> 1"
  using assms
  by (auto simp add: page_invariant_def page_active_def page_waiting_def page_gone_def
        underlying_def)

text \<open>
  The close event of an open socket is its close by the server or the network; the
  close event of a socket that is closing is the end of a close by the page.
\<close>

lemma open_socket_active:
  assumes "page_invariant s" and "c \<in> set (connections s)"
  shows "page_active s c \<and> closures_ok (sockets s)"
  using assms
  by (auto simp add: page_invariant_def page_active_def page_waiting_def page_gone_def)

text \<open>
  After a close by the server the page waits and holds no socket; when the timeout
  fires, the effect creates exactly one socket, the next in number, and the page holds it.
\<close>

lemma server_close_reconnects:
  assumes "page_invariant s" and "c \<in> set (connections s)"
  shows "connection_state (lifecycle_step s (SocketClosed c)) = Reconnecting \<and>
         timeouts (lifecycle_step s (SocketClosed c)) = [(5000, False)] \<and>
         connections (lifecycle_step s (SocketClosed c)) = [] \<and>
         sockets (lifecycle_step s (SocketClosed c)) = sockets s \<and>
         connection_state (lifecycle_step (lifecycle_step s (SocketClosed c)) TimeoutFires) =
           ConnectingOrOpen \<and>
         timeouts (lifecycle_step (lifecycle_step s (SocketClosed c)) TimeoutFires) = [] \<and>
         connections (lifecycle_step (lifecycle_step s (SocketClosed c)) TimeoutFires) =
           [length (sockets s)] \<and>
         wsInstance (lifecycle_step (lifecycle_step s (SocketClosed c)) TimeoutFires) =
           Some (length (sockets s)) \<and>
         sockets (lifecycle_step (lifecycle_step s (SocketClosed c)) TimeoutFires) =
           sockets s @ [(length (sockets s), False)]"
proof -
  let ?s = "lifecycle_step s (SocketClosed c)"
  from open_socket_active [OF assms] have a: "page_active s c" and ok: "closures_ok (sockets s)"
    by simp_all
  from active_closed [OF a] have w: "page_waiting ?s" and same: "sockets ?s = sockets s"
    by simp_all
  from waiting_timeout [OF w] ok same
  have "page_active (lifecycle_step ?s TimeoutFires) (length (sockets s))"
    and "sockets (lifecycle_step ?s TimeoutFires) = sockets s @ [(length (sockets s), False)]"
    by simp_all
  with w same show ?thesis
    by (simp add: page_waiting_def page_active_def connection_state_def)
qed

text \<open>
  After the close event of a socket that the page has closed, the page is disconnected:
  no timeout is pending, none fires, and no socket is created.
\<close>

lemma app_close_disconnects:
  assumes "page_invariant s" and "c \<in> set (closing s)"
  shows "connection_state (lifecycle_step s (SocketClosed c)) = Disconnected \<and>
         timeouts (lifecycle_step s (SocketClosed c)) = [] \<and>
         connections (lifecycle_step s (SocketClosed c)) = [] \<and>
         sockets (lifecycle_step s (SocketClosed c)) = sockets s \<and>
         lifecycle_step (lifecycle_step s (SocketClosed c)) TimeoutFires =
           lifecycle_step s (SocketClosed c)"
proof -
  from assms have g: "page_gone s" "closing s = [c]" "\<not> waitingToReconnect s" "timeouts s = []"
    "map_of (sockets s) c = Some False"
    by (auto simp add: page_invariant_def page_active_def page_waiting_def page_gone_def)
  then have "lifecycle_step s (SocketClosed c) = s\<lparr>connections := [], closing := []\<rparr>"
    by (simp add: page_gone_def commit_def onclose_def)
  with g show ?thesis
    by (simp add: page_gone_def connection_state_def)
qed

text \<open>
  Claim C4. For every close event. The handler of a mounted page that holds a socket
  sets \<^verbatim>\<open>waitingToReconnect\<close> (the state Reconnecting) and adds exactly one timeout, of
  5000 ms; the handler of a page whose ref is null (the cleanup function nulls it before
  it closes the socket) changes nothing. In the life of the page: when an open socket is
  closed by the server the page is Reconnecting, holds no socket and has that one timeout
  pending; when the timeout fires, exactly one socket is created, the page holds it and
  no timeout is left. When a socket closed by the page reports its close, the page is
  Disconnected, no timeout is pending, none fires, and no socket is created.
\<close>

theorem close_transitions:
  "(mounted s \<and> wsInstance s \<noteq> None \<longrightarrow>
      onclose False s =
        s\<lparr>waitingToReconnect := True, textInput := [],
          timeouts := timeouts s @ [(5000, False)]\<rparr> \<and>
      connection_state (onclose False s) = Reconnecting) \<and>
   (wsInstance s = None \<longrightarrow> onclose captured s = s) \<and>
   (c \<in> set (connections (run_lifecycle ch es)) \<longrightarrow>
      connection_state (lifecycle_step (run_lifecycle ch es) (SocketClosed c)) = Reconnecting \<and>
      timeouts (lifecycle_step (run_lifecycle ch es) (SocketClosed c)) = [(5000, False)] \<and>
      connections (lifecycle_step (run_lifecycle ch es) (SocketClosed c)) = [] \<and>
      sockets (lifecycle_step (run_lifecycle ch es) (SocketClosed c)) =
        sockets (run_lifecycle ch es) \<and>
      connection_state
        (lifecycle_step (lifecycle_step (run_lifecycle ch es) (SocketClosed c)) TimeoutFires) =
        ConnectingOrOpen \<and>
      timeouts
        (lifecycle_step (lifecycle_step (run_lifecycle ch es) (SocketClosed c)) TimeoutFires) =
        [] \<and>
      connections
        (lifecycle_step (lifecycle_step (run_lifecycle ch es) (SocketClosed c)) TimeoutFires) =
        [length (sockets (run_lifecycle ch es))] \<and>
      wsInstance
        (lifecycle_step (lifecycle_step (run_lifecycle ch es) (SocketClosed c)) TimeoutFires) =
        Some (length (sockets (run_lifecycle ch es))) \<and>
      sockets
        (lifecycle_step (lifecycle_step (run_lifecycle ch es) (SocketClosed c)) TimeoutFires) =
        sockets (run_lifecycle ch es) @ [(length (sockets (run_lifecycle ch es)), False)]) \<and>
   (c \<in> set (closing (run_lifecycle ch es)) \<longrightarrow>
      connection_state (lifecycle_step (run_lifecycle ch es) (SocketClosed c)) = Disconnected \<and>
      timeouts (lifecycle_step (run_lifecycle ch es) (SocketClosed c)) = [] \<and>
      connections (lifecycle_step (run_lifecycle ch es) (SocketClosed c)) = [] \<and>
      sockets (lifecycle_step (run_lifecycle ch es) (SocketClosed c)) =
        sockets (run_lifecycle ch es) \<and>
      lifecycle_step (lifecycle_step (run_lifecycle ch es) (SocketClosed c)) TimeoutFires =
        lifecycle_step (run_lifecycle ch es) (SocketClosed c))"
proof -
  have handler: "mounted s \<and> wsInstance s \<noteq> None \<longrightarrow>
      onclose False s =
        s\<lparr>waitingToReconnect := True, textInput := [],
          timeouts := timeouts s @ [(5000, False)]\<rparr> \<and>
      connection_state (onclose False s) = Reconnecting"
    by (auto simp add: onclose_def connection_state_def)
  have app: "wsInstance s = None \<longrightarrow> onclose captured s = s"
    by (simp add: onclose_def)
  note inv = invariant_run [of ch es]
  from handler app
    server_close_reconnects [OF inv, of c] app_close_disconnects [OF inv, of c]
  show ?thesis by blast
qed

theorem close_transitions_witness:
  "connection_state (onclose False (mount (ascii ''general''))) = Reconnecting \<and>
   timeouts (onclose False (mount (ascii ''general''))) = [(5000, False)] \<and>
   onclose False (initial_page (ascii ''general'')) = initial_page (ascii ''general'') \<and>
   connection_state (lifecycle_step (run_lifecycle (ascii ''general'') []) (SocketClosed 0)) =
     Reconnecting \<and>
   timeouts (lifecycle_step (run_lifecycle (ascii ''general'') []) (SocketClosed 0)) =
     [(5000, False)] \<and>
   connections
     (lifecycle_step (lifecycle_step (run_lifecycle (ascii ''general'') []) (SocketClosed 0))
        TimeoutFires) = [1] \<and>
   connection_state (lifecycle_step (run_lifecycle (ascii ''general'') [Unmount]) (SocketClosed 0)) =
     Disconnected \<and>
   timeouts (lifecycle_step (run_lifecycle (ascii ''general'') [Unmount]) (SocketClosed 0)) = []"
proof -
  have held: "mounted (mount (ascii ''general'')) \<and> wsInstance (mount (ascii ''general'')) \<noteq> None"
    and none: "timeouts (mount (ascii ''general'')) = []"
    by (simp_all add: mount_def initial_page_def socket_effect_def setClient_def)
  have null: "wsInstance (initial_page (ascii ''general'')) = None"
    by (simp add: initial_page_def)
  have open0: "0 \<in> set (connections (run_lifecycle (ascii ''general'') []))"
    and one: "length (sockets (run_lifecycle (ascii ''general'') [])) = 1"
    by (simp_all add: run_lifecycle_def mount_def initial_page_def socket_effect_def
          setClient_def)
  have closing0: "0 \<in> set (closing (run_lifecycle (ascii ''general'') [Unmount]))"
    by (simp add: run_lifecycle_def mount_def initial_page_def socket_effect_def setClient_def
          socket_cleanup_def)
  from held
    close_transitions [where s = "mount (ascii ''general'')" and c = 0
      and ch = "ascii ''general''" and es = "[]"]
  have handler: "onclose False (mount (ascii ''general'')) =
      (mount (ascii ''general''))
        \<lparr>waitingToReconnect := True, textInput := [],
          timeouts := timeouts (mount (ascii ''general'')) @ [(5000, False)]\<rparr> \<and>
      connection_state (onclose False (mount (ascii ''general''))) = Reconnecting"
    by blast
  have state: "connection_state (onclose False (mount (ascii ''general''))) = Reconnecting"
    by (rule conjunct2 [OF handler])
  have "timeouts (onclose False (mount (ascii ''general''))) = [(5000, False)]"
    by (simp add: conjunct1 [OF handler] none)
  with state
  have first: "connection_state (onclose False (mount (ascii ''general''))) = Reconnecting \<and>
      timeouts (onclose False (mount (ascii ''general''))) = [(5000, False)]"
    by blast
  from open0
    close_transitions [where c = 0 and ch = "ascii ''general''" and es = "[]"]
  have "connections
      (lifecycle_step (lifecycle_step (run_lifecycle (ascii ''general'') []) (SocketClosed 0))
         TimeoutFires) = [length (sockets (run_lifecycle (ascii ''general'') []))]"
    by blast
  with one
  have next_socket: "connections
      (lifecycle_step (lifecycle_step (run_lifecycle (ascii ''general'') []) (SocketClosed 0))
         TimeoutFires) = [1]"
    by (simp only: One_nat_def)
  from null open0 closing0
    close_transitions [where s = "initial_page (ascii ''general'')" and captured = False
      and c = 0 and ch = "ascii ''general''" and es = "[]"]
    close_transitions [where c = 0 and ch = "ascii ''general''" and es = "[Unmount]"]
  have rest: "onclose False (initial_page (ascii ''general'')) = initial_page (ascii ''general'') \<and>
      connection_state (lifecycle_step (run_lifecycle (ascii ''general'') []) (SocketClosed 0)) =
        Reconnecting \<and>
      timeouts (lifecycle_step (run_lifecycle (ascii ''general'') []) (SocketClosed 0)) =
        [(5000, False)] \<and>
      connection_state
        (lifecycle_step (run_lifecycle (ascii ''general'') [Unmount]) (SocketClosed 0)) =
        Disconnected \<and>
      timeouts (lifecycle_step (run_lifecycle (ascii ''general'') [Unmount]) (SocketClosed 0)) = []"
    by blast
  from first next_socket rest show ?thesis by blast
qed

text \<open>
  Claim C5. After every sequence of steps of the page's life at most one underlying
  connection exists (open, connecting or closing); and the effect that opens the socket
  does not open one while the ref \<^verbatim>\<open>wsInstance.current\<close> holds a socket: it only
  returns without a cleanup function.
\<close>

theorem one_connection_at_a_time:
  "length (underlying (run_lifecycle ch es)) \<le> 1 \<and>
   (wsInstance s \<noteq> None \<longrightarrow> socket_effect s = s\<lparr>cleanup := None\<rparr>)"
  using invariant_underlying [OF invariant_run [of ch es]]
  by (simp add: socket_effect_def)

theorem one_connection_at_a_time_witness:
  "underlying (run_lifecycle (ascii ''general'') [SocketClosed 0, TimeoutFires]) = [1] \<and>
   length (underlying (run_lifecycle (ascii ''general'') [SocketClosed 0, TimeoutFires])) \<le> 1 \<and>
   socket_effect (mount (ascii ''general'')) = (mount (ascii ''general''))\<lparr>cleanup := None\<rparr>"
proof -
  have "wsInstance (mount (ascii ''general'')) \<noteq> None"
    by (simp add: mount_def initial_page_def socket_effect_def setClient_def)
  moreover have "underlying (run_lifecycle (ascii ''general'') [SocketClosed 0, TimeoutFires]) = [1]"
    by (simp add: run_lifecycle_def mount_def initial_page_def socket_effect_def setClient_def
          commit_def onclose_def setWaitingToReconnect_def rerun_socket_effect_def
          render_input_def socket_cleanup_def underlying_def)
  ultimately show ?thesis
    using one_connection_at_a_time
      [of "ascii ''general''" "[SocketClosed 0, TimeoutFires]" "mount (ascii ''general'')"]
    by blast
qed

section \<open>What a close does to unsent input\<close>

text \<open>
  The close handler empties the text input element (line 93). It has set
  \<^verbatim>\<open>waitingToReconnect\<close> just before, and the render that follows writes the state
  \<^verbatim>\<open>message\<close> to the element again: the element is empty only between the two.
\<close>

lemma onclose_empties_element:
  "mounted s \<and> wsInstance s \<noteq> None \<Longrightarrow> textInput (onclose False s) = []"
  by (auto simp add: onclose_def)

text \<open>No step but the user's typing changes the composed text, the log or the calls issued.\<close>

lemma onclose_frame:
  "message (onclose captured s) = message s \<and> messages (onclose captured s) = messages s \<and>
   mutations (onclose captured s) = mutations s"
  by (simp add: onclose_def)

lemma life_frame:
  "messages (lifecycle_step s e) = messages s \<and> mutations (lifecycle_step s e) = mutations s \<and>
   message (lifecycle_step s (SocketClosed c)) = message s \<and>
   message (lifecycle_step s TimeoutFires) = message s \<and>
   message (lifecycle_step s Unmount) = message s"
proof -
  have frame: "message (rerun_socket_effect x) = message x \<and>
      messages (rerun_socket_effect x) = messages x \<and>
      mutations (rerun_socket_effect x) = mutations x" for x
    by (simp add: rerun_socket_effect_def socket_effect_def socket_cleanup_def setClient_def
          Let_def split: option.splits)
  have committed: "message (commit x y) = message y \<and> messages (commit x y) = messages y \<and>
      mutations (commit x y) = mutations y" for x y
    by (simp add: commit_def frame render_input_def)
  have closed: "message (lifecycle_step s (SocketClosed k)) = message s \<and>
      messages (lifecycle_step s (SocketClosed k)) = messages s \<and>
      mutations (lifecycle_step s (SocketClosed k)) = mutations s" for k
    by (simp add: committed onclose_frame Let_def split: option.splits)
  have fired: "message (lifecycle_step s TimeoutFires) = message s \<and>
      messages (lifecycle_step s TimeoutFires) = messages s \<and>
      mutations (lifecycle_step s TimeoutFires) = mutations s"
    by (simp add: committed setWaitingToReconnect_def Let_def split: list.splits)
  have unmounted: "message (lifecycle_step s Unmount) = message s \<and>
      messages (lifecycle_step s Unmount) = messages s \<and>
      mutations (lifecycle_step s Unmount) = mutations s"
    by (simp add: socket_cleanup_def setClient_def split: option.splits)
  have typed: "messages (lifecycle_step s (Typed t)) = messages s \<and>
      mutations (lifecycle_step s (Typed t)) = mutations s" for t
    by simp
  from closed fired unmounted typed show ?thesis
    by (cases e) simp_all
qed

text \<open>The input of a mounted page shows the composed text after every step.\<close>

lemma input_step:
  assumes inv: "page_invariant s"
    and shown: "mounted s \<longrightarrow> textInput s = message s"
  shows "mounted (lifecycle_step s e) \<longrightarrow>
         textInput (lifecycle_step s e) = message (lifecycle_step s e)"
proof -
  from inv have ok: "closures_ok (sockets s)"
    and shape: "(\<exists>c. page_active s c) \<or> page_waiting s \<or> page_gone s"
    by (simp_all add: page_invariant_def)
  from shape show ?thesis
  proof (elim disjE exE)
    fix c assume a: "page_active s c"
    show ?thesis
    proof (cases e)
      case (SocketClosed c')
      show ?thesis
      proof (cases "c' = c")
        case True
        with active_closed [OF a] SocketClosed show ?thesis by simp
      next
        case False
        with active_closed_other [OF a] shown SocketClosed show ?thesis by simp
      qed
    next
      case TimeoutFires
      with active_timeout [OF a] shown show ?thesis by simp
    next
      case Unmount
      with active_unmount [OF a] show ?thesis by (simp add: page_gone_def)
    next
      case (Typed t)
      with active_typed [OF a, of t] show ?thesis by simp
    qed
  next
    assume w: "page_waiting s"
    show ?thesis
    proof (cases e)
      case (SocketClosed c)
      with waiting_closed [OF w] shown show ?thesis by simp
    next
      case TimeoutFires
      with waiting_timeout [OF w ok] show ?thesis by simp
    next
      case Unmount
      with waiting_unmount [OF w] show ?thesis by (simp add: page_gone_def)
    next
      case (Typed t)
      with waiting_typed [OF w] shown show ?thesis by simp
    qed
  next
    assume "page_gone s"
    from gone_step [OF this, of e] show ?thesis by (simp add: page_gone_def)
  qed
qed

lemma input_steps:
  assumes "page_invariant s" and "mounted s \<longrightarrow> textInput s = message s"
  shows "mounted (foldl lifecycle_step s es) \<longrightarrow>
         textInput (foldl lifecycle_step s es) = message (foldl lifecycle_step s es)"
  using assms
proof (induction es arbitrary: s)
  case Nil
  then show ?case by simp
next
  case (Cons e es)
  from Cons.IH [OF invariant_step [OF Cons.prems(1)] input_step [OF Cons.prems]]
  show ?case by simp
qed

lemma input_run:
  "mounted (run_lifecycle ch es) \<longrightarrow>
   textInput (run_lifecycle ch es) = message (run_lifecycle ch es)"
  unfolding run_lifecycle_def
  by (rule input_steps [OF invariant_mount])
     (simp add: mount_def initial_page_def socket_effect_def setClient_def)

lemma server_close_keeps_input:
  assumes "c \<in> set (connections (run_lifecycle ch es))"
  shows "waitingToReconnect (lifecycle_step (run_lifecycle ch es) (SocketClosed c)) \<and>
         message (lifecycle_step (run_lifecycle ch es) (SocketClosed c)) =
           message (run_lifecycle ch es) \<and>
         textInput (lifecycle_step (run_lifecycle ch es) (SocketClosed c)) =
           message (run_lifecycle ch es)"
proof -
  from open_socket_active [OF invariant_run assms]
  have "page_active (run_lifecycle ch es) c" by simp
  from active_closed [OF this] show ?thesis
    by (simp add: page_waiting_def)
qed

text \<open>
  Claim C6. No unsent message is discarded while the connection is down. The close
  handler, and every close, timeout and unmount step of the page's life, leaves the state
  \<^verbatim>\<open>message\<close> (the composed text, which the input is bound to and which
  \<^verbatim>\<open>sendMessage\<close> sends), the log and the calls already issued as they were. After every
  sequence of steps the input of the mounted page shows \<^verbatim>\<open>message\<close>; in particular,
  after the close of its socket by the server the page waits to reconnect and the input
  shows what the user had composed before the close. (The first page version has no
  pending entries; the sends in flight are the calls issued.)
\<close>

theorem composed_text_survives_close:
  "message (onclose captured s) = message s \<and>
   messages (onclose captured s) = messages s \<and>
   mutations (onclose captured s) = mutations s \<and>
   message (lifecycle_step s (SocketClosed c)) = message s \<and>
   message (lifecycle_step s TimeoutFires) = message s \<and>
   message (lifecycle_step s Unmount) = message s \<and>
   messages (lifecycle_step s e) = messages s \<and>
   mutations (lifecycle_step s e) = mutations s \<and>
   (mounted (run_lifecycle ch es) \<longrightarrow>
      textInput (run_lifecycle ch es) = message (run_lifecycle ch es)) \<and>
   (c \<in> set (connections (run_lifecycle ch es)) \<longrightarrow>
      waitingToReconnect (lifecycle_step (run_lifecycle ch es) (SocketClosed c)) \<and>
      message (lifecycle_step (run_lifecycle ch es) (SocketClosed c)) =
        message (run_lifecycle ch es) \<and>
      textInput (lifecycle_step (run_lifecycle ch es) (SocketClosed c)) =
        message (run_lifecycle ch es))"
  using onclose_frame [of captured s] life_frame [of s e c] input_run [of ch es]
    server_close_keeps_input [of c ch es]
  by blast

theorem composed_text_survives_close_witness:
  "message (run_lifecycle (ascii ''general'') [Typed (ascii ''hello'')]) = ascii ''hello'' \<and>
   textInput (run_lifecycle (ascii ''general'') [Typed (ascii ''hello'')]) = ascii ''hello'' \<and>
   waitingToReconnect
     (lifecycle_step (run_lifecycle (ascii ''general'') [Typed (ascii ''hello'')])
        (SocketClosed 0)) \<and>
   message
     (lifecycle_step (run_lifecycle (ascii ''general'') [Typed (ascii ''hello'')])
        (SocketClosed 0)) = ascii ''hello'' \<and>
   textInput
     (lifecycle_step (run_lifecycle (ascii ''general'') [Typed (ascii ''hello'')])
        (SocketClosed 0)) = ascii ''hello''"
proof -
  have typed: "message (run_lifecycle (ascii ''general'') [Typed (ascii ''hello'')]) =
      ascii ''hello''"
    and there: "mounted (run_lifecycle (ascii ''general'') [Typed (ascii ''hello'')])"
    and open0: "0 \<in> set (connections (run_lifecycle (ascii ''general'') [Typed (ascii ''hello'')]))"
    by (simp_all add: run_lifecycle_def mount_def initial_page_def socket_effect_def
          setClient_def)
  from there open0
    composed_text_survives_close
      [where c = 0 and ch = "ascii ''general''" and es = "[Typed (ascii ''hello'')]"]
  have "textInput (run_lifecycle (ascii ''general'') [Typed (ascii ''hello'')]) =
      message (run_lifecycle (ascii ''general'') [Typed (ascii ''hello'')]) \<and>
    waitingToReconnect
      (lifecycle_step (run_lifecycle (ascii ''general'') [Typed (ascii ''hello'')])
         (SocketClosed 0)) \<and>
    message
      (lifecycle_step (run_lifecycle (ascii ''general'') [Typed (ascii ''hello'')])
         (SocketClosed 0)) =
      message (run_lifecycle (ascii ''general'') [Typed (ascii ''hello'')]) \<and>
    textInput
      (lifecycle_step (run_lifecycle (ascii ''general'') [Typed (ascii ''hello'')])
         (SocketClosed 0)) =
      message (run_lifecycle (ascii ''general'') [Typed (ascii ''hello'')])"
    by blast
  with typed show ?thesis by simp
qed

end
